theory Spec2Isabelle
  imports Complex_Main
begin

section \<open>Enrollment and fee ledger of the LMS backend\<close>

text \<open>
  The development embeds the route handlers of \<^verbatim>\<open>admin_routes.py\<close> and
  \<^verbatim>\<open>lms_routes.py\<close> that enroll students in batches, remove them, create fee
  structures and record fee payments. The document store is a record of collections, every
  collection a list of documents in insertion order; a handler takes the store and returns
  the store it leaves behind together with its HTTP outcome, so that a handler that raises
  after a write still shows the write. Values that the handlers draw from the clock or from
  \<^verbatim>\<open>uuid.uuid4()\<close> are parameters.
\<close>

subsection \<open>Python floats\<close>

text \<open>
  Money amounts are Python \<^verbatim>\<open>float\<close>s, that is IEEE 754 binary64 numbers. A finite
  float is modelled by the real number it denotes, and every arithmetic operation
  rounds the exact result to the nearest float with a 53-bit significand, ties to the even
  significand; below \<open>pow2 (- 1022)\<close> the spacing stays at \<open>pow2 (- 1074)\<close> (subnormal numbers).
  Overflow to infinity and NaN are not modelled.
\<close>

type_synonym amount = real

function bit_length :: "nat \<Rightarrow> nat" where
  "bit_length n = (if n = 0 then 0 else Suc (bit_length (n div 2)))"
  by pat_completeness auto
termination
  by (relation "measure (\<lambda>n. n)") auto

declare bit_length.simps [simp del]

definition pow2 :: "int \<Rightarrow> real" where
  "pow2 e = (if 0 \<le> e then 2 ^ nat e else 1 / 2 ^ nat (- e))"

text \<open>\<open>ilog2 x\<close> is \<open>\<lfloor>log\<^sub>2 x\<rfloor>\<close> for a positive \<open>x\<close>.\<close>

definition ilog2 :: "real \<Rightarrow> int" where
  "ilog2 x = (if 1 \<le> x then int (bit_length (nat \<lfloor>x\<rfloor>)) - 1
              else - int (bit_length (nat (\<lceil>1 / x\<rceil> - 1))))"

definition round_half_even :: "real \<Rightarrow> int" where
  "round_half_even x =
     (let n = \<lfloor>x\<rfloor>; r = x - of_int n
      in if r < 1 / 2 then n else if 1 / 2 < r then n + 1 else if even n then n else n + 1)"

definition fl :: "real \<Rightarrow> amount" where
  "fl x = (if x = 0 then 0
           else let e = max (ilog2 \<bar>x\<bar> - 52) (- 1074)
                in of_int (round_half_even (x / pow2 e)) * pow2 e)"

definition fadd :: "amount \<Rightarrow> amount \<Rightarrow> amount" where
  "fadd x y = fl (x + y)"

definition fsub :: "amount \<Rightarrow> amount \<Rightarrow> amount" where
  "fsub x y = fl (x - y)"

text \<open>
  True division of a float by an \<^verbatim>\<open>int\<close>: the integer is converted to a float first.
  The caller excludes a zero divisor, where Python raises.
\<close>

definition fdiv_int :: "amount \<Rightarrow> int \<Rightarrow> amount" where
  "fdiv_int x n = fl (x / fl (of_int n))"

subsection \<open>Documents\<close>

text \<open>
  Of every document the fields that these handlers read or write are kept. A field that the
  source reads with \<^verbatim>\<open>.get(key, default)\<close> is an option, \<open>None\<close> for a missing key.
  The course of a batch, a required field of the \<^verbatim>\<open>Batch\<close> model, is taken to be
  present. Times are seconds on one clock.
\<close>

record batch =
  b_id :: string
  b_course_id :: string
  b_max_students :: "int option"
  b_enrolled_students :: "string list option"

record student_profile =
  sp_user_id :: string
  sp_batch_id :: "string option"
  sp_enrolled_courses :: "string list"
  sp_status :: string

record installment =
  inst_number :: int
  inst_amount :: amount
  inst_due_date :: int
  inst_status :: "string option"

record fee_structure =
  fs_id :: string
  fs_student_id :: string
  fs_course_id :: string
  fs_batch_id :: string
  fs_total_fee :: amount
  fs_paid_amount :: amount
  fs_pending_amount :: amount
  fs_installments :: "installment list"
  fs_discount_applied :: amount
  fs_created_at :: int

record fee_payment =
  fp_id :: string
  fp_fee_structure_id :: string
  fp_student_id :: string
  fp_amount :: amount
  fp_payment_date :: int
  fp_payment_method :: string
  fp_transaction_id :: "string option"
  fp_installment_number :: int
  fp_receipt_number :: string
  fp_notes :: "string option"

record user =
  u_id :: string
  u_name :: "string option"
  u_email :: "string option"
  u_phone :: string
  u_role :: string
  u_hashed_password :: string
  u_created_at :: int

text \<open>One row of the bulk-enrollment request body.\<close>

record student_data =
  sd_name :: "string option"
  sd_email :: "string option"
  sd_phone :: "string option"
  sd_total_fee :: "amount option"
  sd_discount :: "amount option"

record db =
  batches :: "batch list"
  student_profiles :: "student_profile list"
  fee_structures :: "fee_structure list"
  fee_payments :: "fee_payment list"
  users :: "user list"

subsection \<open>Outcomes\<close>

datatype error = HTTPException nat string | ZeroDivisionError

text \<open>
  The response bodies: a message; a message with the batch id; a message with the receipt
  number; and the bulk result, the number enrolled with the rows reported as errors (row
  number, email, error text).
\<close>

datatype response =
    Message string
  | MessageBatch string string
  | MessageReceipt string string
  | BulkResult nat "(nat \<times> string option \<times> string) list"

type_synonym outcome = "db \<times> (error + response)"

text \<open>The error kinds of the specification, as the handlers raise them.\<close>

definition NotFoundBatch :: error where
  "NotFoundBatch = HTTPException 404 ''Batch not found''"

definition NotFoundFee :: error where
  "NotFoundFee = HTTPException 404 ''Fee structure not found''"

definition CapacityExceeded :: error where
  "CapacityExceeded = HTTPException 400 ''Batch is full''"

definition AlreadyEnrolled :: error where
  "AlreadyEnrolled = HTTPException 400 ''Student already enrolled in this batch''"

subsection \<open>Document store operations\<close>

definition find_one :: "('a \<Rightarrow> bool) \<Rightarrow> 'a list \<Rightarrow> 'a option" where
  "find_one P xs = List.find P xs"

text \<open>\<^verbatim>\<open>update_one\<close> changes the first document that matches, and nothing without one.\<close>

fun update_one :: "('a \<Rightarrow> bool) \<Rightarrow> ('a \<Rightarrow> 'a) \<Rightarrow> 'a list \<Rightarrow> 'a list" where
  "update_one P f [] = []"
| "update_one P f (x # xs) = (if P x then f x # xs else x # update_one P f xs)"

text \<open>With \<^verbatim>\<open>upsert=True\<close> a document is inserted when none matches.\<close>

definition upsert_one :: "('a \<Rightarrow> bool) \<Rightarrow> ('a \<Rightarrow> 'a) \<Rightarrow> 'a \<Rightarrow> 'a list \<Rightarrow> 'a list" where
  "upsert_one P f new xs =
     (case find_one P xs of None \<Rightarrow> xs @ [new] | Some x \<Rightarrow> update_one P f xs)"

definition insert_one :: "'a \<Rightarrow> 'a list \<Rightarrow> 'a list" where
  "insert_one x xs = xs @ [x]"

definition add_to_set :: "'a list \<Rightarrow> 'a \<Rightarrow> 'a list" where
  "add_to_set xs x = (if x \<in> set xs then xs else xs @ [x])"

definition pull :: "'a list \<Rightarrow> 'a \<Rightarrow> 'a list" where
  "pull xs x = removeAll x xs"

subsection \<open>Batch rosters\<close>

text \<open>\<^verbatim>\<open>batch.get("enrolled_students", [])\<close> and \<^verbatim>\<open>batch.get("max_students", 30)\<close>.\<close>

definition get_enrolled_students :: "batch \<Rightarrow> string list" where
  "get_enrolled_students b = (case b_enrolled_students b of None \<Rightarrow> [] | Some xs \<Rightarrow> xs)"

definition get_max_students :: "batch \<Rightarrow> int" where
  "get_max_students b = (case b_max_students b of None \<Rightarrow> 30 | Some m \<Rightarrow> m)"

text \<open>
  \<^verbatim>\<open>{"$addToSet": {"enrolled_students": student_id}}\<close> creates the array when the field
  is missing; \<^verbatim>\<open>{"$pull": {"enrolled_students": student_id}}\<close> leaves a missing field
  missing.
\<close>

definition add_student :: "string \<Rightarrow> batch \<Rightarrow> batch" where
  "add_student student_id b =
     b\<lparr>b_enrolled_students := Some (add_to_set (get_enrolled_students b) student_id)\<rparr>"

definition pull_student :: "string \<Rightarrow> batch \<Rightarrow> batch" where
  "pull_student student_id b =
     b\<lparr>b_enrolled_students := map_option (\<lambda>xs. pull xs student_id) (b_enrolled_students b)\<rparr>"

definition find_batch :: "db \<Rightarrow> string \<Rightarrow> batch option" where
  "find_batch d batch_id = find_one (\<lambda>b. b_id b = batch_id) (batches d)"

definition find_profile :: "db \<Rightarrow> string \<Rightarrow> student_profile option" where
  "find_profile d student_id = find_one (\<lambda>p. sp_user_id p = student_id) (student_profiles d)"

definition find_fee :: "db \<Rightarrow> string \<Rightarrow> fee_structure option" where
  "find_fee d fee_structure_id = find_one (\<lambda>f. fs_id f = fee_structure_id) (fee_structures d)"

definition batch_full :: "batch \<Rightarrow> bool" where
  "batch_full b = (get_max_students b \<le> int (length (get_enrolled_students b)))"

subsection \<open>Single enrollment and removal\<close>

text \<open>
  \<^verbatim>\<open>enroll_student\<close> of \<^verbatim>\<open>admin_routes.py\<close>: the capacity is checked, the student
  is added to the roster, and the profile, when there is one, gets the batch and the course.
\<close>

definition enroll_student :: "db \<Rightarrow> string \<Rightarrow> string \<Rightarrow> outcome" where
  "enroll_student d batch_id student_id =
     (case find_batch d batch_id of
        None \<Rightarrow> (d, Inl NotFoundBatch)
      | Some batch \<Rightarrow>
          if batch_full batch then (d, Inl CapacityExceeded)
          else
            let d1 = d\<lparr>batches :=
                       update_one (\<lambda>b. b_id b = batch_id) (add_student student_id) (batches d)\<rparr>;
                d2 = d1\<lparr>student_profiles :=
                       update_one (\<lambda>p. sp_user_id p = student_id)
                         (\<lambda>p. p\<lparr>sp_batch_id := Some batch_id,
                                 sp_enrolled_courses :=
                                   add_to_set (sp_enrolled_courses p) (b_course_id batch)\<rparr>)
                         (student_profiles d1)\<rparr>
            in (d2, Inr (Message ''Student enrolled successfully'')))"

text \<open>\<^verbatim>\<open>enroll_student_in_batch\<close> of \<^verbatim>\<open>lms_routes.py\<close> has the same steps.\<close>

definition enroll_student_in_batch :: "db \<Rightarrow> string \<Rightarrow> string \<Rightarrow> outcome" where
  "enroll_student_in_batch d batch_id student_id =
     (case find_batch d batch_id of
        None \<Rightarrow> (d, Inl NotFoundBatch)
      | Some batch \<Rightarrow>
          if batch_full batch then (d, Inl CapacityExceeded)
          else
            let d1 = d\<lparr>batches :=
                       update_one (\<lambda>b. b_id b = batch_id) (add_student student_id) (batches d)\<rparr>;
                d2 = d1\<lparr>student_profiles :=
                       update_one (\<lambda>p. sp_user_id p = student_id)
                         (\<lambda>p. p\<lparr>sp_batch_id := Some batch_id,
                                 sp_enrolled_courses :=
                                   add_to_set (sp_enrolled_courses p) (b_course_id batch)\<rparr>)
                         (student_profiles d1)\<rparr>
            in (d2, Inr (Message ''Student enrolled successfully'')))"

definition remove_student_from_batch :: "db \<Rightarrow> string \<Rightarrow> string \<Rightarrow> outcome" where
  "remove_student_from_batch d batch_id student_id =
     (let d1 = d\<lparr>batches :=
                update_one (\<lambda>b. b_id b = batch_id) (pull_student student_id) (batches d)\<rparr>;
          d2 = d1\<lparr>student_profiles :=
                update_one (\<lambda>p. sp_user_id p = student_id) (\<lambda>p. p\<lparr>sp_batch_id := None\<rparr>)
                  (student_profiles d1)\<rparr>
      in (d2, Inr (Message ''Student removed from batch'')))"

subsection \<open>Enrollment with a fee structure\<close>

text \<open>
  The installment loop: \<^verbatim>\<open>range(installments)\<close> is empty for a negative count, every
  installment gets the same amount, and the due dates are 30 days apart (in seconds after
  \<open>now\<close>, the readings of the clock within one request being taken as one).
\<close>

definition make_installments :: "int \<Rightarrow> amount \<Rightarrow> int \<Rightarrow> installment list" where
  "make_installments now per_installment installments =
     map (\<lambda>i. \<lparr>inst_number = int i + 1,
               inst_amount = per_installment,
               inst_due_date = now + 86400 * (30 * (int i + 1)),
               inst_status = Some ''pending''\<rparr>)
       [0..<nat installments]"

definition new_fee_structure ::
  "string \<Rightarrow> int \<Rightarrow> string \<Rightarrow> string \<Rightarrow> string \<Rightarrow> amount \<Rightarrow> amount \<Rightarrow> installment list \<Rightarrow>
   amount \<Rightarrow> fee_structure" where
  "new_fee_structure uuid now student_id course_id batch_id total_fee pending installment_list
     discount =
     \<lparr>fs_id = uuid, fs_student_id = student_id, fs_course_id = course_id,
      fs_batch_id = batch_id, fs_total_fee = total_fee, fs_paid_amount = 0,
      fs_pending_amount = pending, fs_installments = installment_list,
      fs_discount_applied = discount, fs_created_at = now\<rparr>"

text \<open>
  \<^verbatim>\<open>enroll_student_with_fees\<close>: after the capacity check comes the check that the student
  is not enrolled yet; the profile is upserted; a fee structure is created for a positive
  fee. The division by \<^verbatim>\<open>installments\<close> raises for zero, after the roster and the
  profile have been written.
\<close>

definition enroll_student_with_fees ::
  "string \<Rightarrow> int \<Rightarrow> db \<Rightarrow> string \<Rightarrow> string \<Rightarrow> amount \<Rightarrow> amount \<Rightarrow> int \<Rightarrow> outcome" where
  "enroll_student_with_fees uuid now d batch_id student_id total_fee discount installments =
     (case find_batch d batch_id of
        None \<Rightarrow> (d, Inl NotFoundBatch)
      | Some batch \<Rightarrow>
          if batch_full batch then (d, Inl CapacityExceeded)
          else if student_id \<in> set (get_enrolled_students batch) then (d, Inl AlreadyEnrolled)
          else
            let d1 = d\<lparr>batches :=
                       update_one (\<lambda>b. b_id b = batch_id) (add_student student_id) (batches d)\<rparr>;
                d2 = d1\<lparr>student_profiles :=
                       upsert_one (\<lambda>p. sp_user_id p = student_id)
                         (\<lambda>p. p\<lparr>sp_batch_id := Some batch_id, sp_status := ''active'',
                                 sp_enrolled_courses :=
                                   add_to_set (sp_enrolled_courses p) (b_course_id batch)\<rparr>)
                         \<lparr>sp_user_id = student_id, sp_batch_id = Some batch_id,
                          sp_enrolled_courses = [b_course_id batch], sp_status = ''active''\<rparr>
                         (student_profiles d1)\<rparr>
            in if 0 < total_fee then
                 if installments = 0 then (d2, Inl ZeroDivisionError)
                 else
                   let pending = fsub total_fee discount;
                       per_installment = fdiv_int pending installments;
                       installment_list = make_installments now per_installment installments;
                       fee = new_fee_structure uuid now student_id (b_course_id batch) batch_id
                               total_fee pending installment_list discount
                   in (d2\<lparr>fee_structures := insert_one fee (fee_structures d2)\<rparr>,
                       Inr (MessageBatch ''Student enrolled successfully'' batch_id))
               else (d2, Inr (MessageBatch ''Student enrolled successfully'' batch_id)))"

subsection \<open>Recording a payment\<close>

definition upper_char :: "char \<Rightarrow> char" where
  "upper_char c =
     (let n = (of_char c :: nat) in if 97 \<le> n \<and> n \<le> 122 then char_of (n - 32) else c)"

text \<open>
  The receipt number \<^verbatim>\<open>f"RCP{datetime.now().strftime('%Y%m%d')}{str(uuid.uuid4())[:6].upper()}"\<close>,
  from the date string and the UUID that the request draws.
\<close>

definition make_receipt_number :: "string \<Rightarrow> string \<Rightarrow> string" where
  "make_receipt_number today uuid = ''RCP'' @ today @ map upper_char (take 6 uuid)"

definition paid_count :: "installment list \<Rightarrow> nat" where
  "paid_count insts = length (filter (\<lambda>i. inst_status i = Some ''paid'') insts)"

text \<open>
  \<^verbatim>\<open>record_fee_payment\<close>: the payment is inserted, then the two amounts of the fee
  structure are set. The amount is used as it comes.
\<close>

definition record_fee_payment ::
  "string \<Rightarrow> string \<Rightarrow> string \<Rightarrow> int \<Rightarrow> db \<Rightarrow> string \<Rightarrow> amount \<Rightarrow> string \<Rightarrow> string option \<Rightarrow>
   string option \<Rightarrow> outcome" where
  "record_fee_payment receipt_uuid payment_uuid today now d fee_structure_id amount
     payment_method transaction_id notes =
     (case find_fee d fee_structure_id of
        None \<Rightarrow> (d, Inl NotFoundFee)
      | Some fee \<Rightarrow>
          let receipt_number = make_receipt_number today receipt_uuid;
              payment = \<lparr>fp_id = payment_uuid, fp_fee_structure_id = fee_structure_id,
                         fp_student_id = fs_student_id fee, fp_amount = amount,
                         fp_payment_date = now, fp_payment_method = payment_method,
                         fp_transaction_id = transaction_id,
                         fp_installment_number = int (paid_count (fs_installments fee)) + 1,
                         fp_receipt_number = receipt_number, fp_notes = notes\<rparr>;
              d1 = d\<lparr>fee_payments := insert_one payment (fee_payments d)\<rparr>;
              new_paid = fadd (fs_paid_amount fee) amount;
              new_pending = fsub (fs_pending_amount fee) amount;
              d2 = d1\<lparr>fee_structures :=
                     update_one (\<lambda>f. fs_id f = fee_structure_id)
                       (\<lambda>f. f\<lparr>fs_paid_amount := new_paid,
                               fs_pending_amount := max 0 new_pending\<rparr>)
                       (fee_structures d1)\<rparr>
          in (d2, Inr (MessageReceipt ''Payment recorded'' receipt_number)))"

subsection \<open>Bulk enrollment\<close>

text \<open>
  \<^verbatim>\<open>bulk_enroll_students\<close> reads the batch once and then goes through the rows. A row
  whose email has no user creates one; a student found in the roster as it was read is
  reported and skipped; every other student is added to the roster and gets a fee structure
  of two installments for a positive fee. \<open>uuids idx\<close> gives the two UUIDs that row
  \<open>idx\<close> may draw, for the user and for the fee structure. The fee and the discount of a
  row are floats, as the CSV preview produces them, so that no step of a row raises and the
  \<^verbatim>\<open>except\<close> branch stays out. Of the response the count and the error rows are
  kept; its message is made of the count.
\<close>

definition row_total_fee :: "student_data \<Rightarrow> amount" where
  "row_total_fee sd = (case sd_total_fee sd of None \<Rightarrow> 0 | Some v \<Rightarrow> v)"

definition row_discount :: "student_data \<Rightarrow> amount" where
  "row_discount sd = (case sd_discount sd of None \<Rightarrow> 0 | Some v \<Rightarrow> v)"

definition row_phone :: "student_data \<Rightarrow> string" where
  "row_phone sd = (case sd_phone sd of None \<Rightarrow> [] | Some v \<Rightarrow> v)"

type_synonym bulk_state = "db \<times> nat \<times> (nat \<times> string option \<times> string) list"

definition bulk_row ::
  "(nat \<Rightarrow> string \<times> string) \<Rightarrow> int \<Rightarrow> batch \<Rightarrow> string \<Rightarrow> nat \<Rightarrow> student_data \<Rightarrow> bulk_state \<Rightarrow>
   bulk_state" where
  "bulk_row uuids now batch batch_id idx sd st =
     (case st of (d, enrolled_count, errors) \<Rightarrow>
        let existing = find_one (\<lambda>u. u_email u = sd_email sd) (users d);
            student_id = (case existing of Some u \<Rightarrow> u_id u | None \<Rightarrow> fst (uuids idx));
            d0 = (case existing of
                    Some u \<Rightarrow> d
                  | None \<Rightarrow>
                      d\<lparr>users := insert_one
                          \<lparr>u_id = fst (uuids idx), u_name = sd_name sd, u_email = sd_email sd,
                           u_phone = row_phone sd, u_role = ''student'',
                           u_hashed_password = ''temp_password_change_required'',
                           u_created_at = now\<rparr> (users d)\<rparr>)
        in if student_id \<in> set (get_enrolled_students batch) then
             (d0, enrolled_count, errors @ [(idx + 1, sd_email sd, ''Already enrolled'')])
           else
             let d1 = d0\<lparr>batches :=
                        update_one (\<lambda>b. b_id b = batch_id) (add_student student_id)
                          (batches d0)\<rparr>;
                 total_fee = row_total_fee sd;
                 discount = row_discount sd;
                 pending = fsub total_fee discount;
                 d2 = (if 0 < total_fee then
                         let per_installment = fdiv_int pending 2;
                             installment_list = make_installments now per_installment 2;
                             fee = new_fee_structure (snd (uuids idx)) now student_id
                                     (b_course_id batch) batch_id total_fee pending
                                     installment_list discount
                         in d1\<lparr>fee_structures := insert_one fee (fee_structures d1)\<rparr>
                       else d1)
             in (d2, enrolled_count + 1, errors))"

fun bulk_loop ::
  "(nat \<Rightarrow> string \<times> string) \<Rightarrow> int \<Rightarrow> batch \<Rightarrow> string \<Rightarrow> nat \<Rightarrow> student_data list \<Rightarrow>
   bulk_state \<Rightarrow> bulk_state" where
  "bulk_loop uuids now batch batch_id idx [] st = st"
| "bulk_loop uuids now batch batch_id idx (sd # rest) st =
     bulk_loop uuids now batch batch_id (Suc idx) rest
       (bulk_row uuids now batch batch_id idx sd st)"

definition bulk_enroll_students ::
  "(nat \<Rightarrow> string \<times> string) \<Rightarrow> int \<Rightarrow> db \<Rightarrow> string \<Rightarrow> student_data list \<Rightarrow> outcome" where
  "bulk_enroll_students uuids now d batch_id students =
     (case find_batch d batch_id of
        None \<Rightarrow> (d, Inl NotFoundBatch)
      | Some batch \<Rightarrow>
          (case bulk_loop uuids now batch batch_id 0 students (d, 0, []) of
             (d', enrolled_count, errors) \<Rightarrow> (d', Inr (BulkResult enrolled_count errors))))"

subsection \<open>Sequences of payments\<close>

text \<open>The arguments of one \<^verbatim>\<open>record_fee_payment\<close> request, with the values it draws.\<close>

record payment_request =
  pr_receipt_uuid :: string
  pr_payment_uuid :: string
  pr_today :: string
  pr_now :: int
  pr_amount :: amount
  pr_payment_method :: string
  pr_transaction_id :: "string option"
  pr_notes :: "string option"

definition record_payment_request :: "db \<Rightarrow> string \<Rightarrow> payment_request \<Rightarrow> outcome" where
  "record_payment_request d fee_structure_id r =
     record_fee_payment (pr_receipt_uuid r) (pr_payment_uuid r) (pr_today r) (pr_now r) d
       fee_structure_id (pr_amount r) (pr_payment_method r) (pr_transaction_id r) (pr_notes r)"

text \<open>The store after a sequence of requests on one fee structure, one after the other.\<close>

fun record_payments :: "db \<Rightarrow> string \<Rightarrow> payment_request list \<Rightarrow> db" where
  "record_payments d fee_structure_id [] = d"
| "record_payments d fee_structure_id (r # rs) =
     record_payments (fst (record_payment_request d fee_structure_id r)) fee_structure_id rs"

text \<open>
  The ledger equation, read over the values of the floats, and read as the Python
  comparison \<^verbatim>\<open>paid_amount + pending_amount == total_fee - discount_applied\<close>.
\<close>

definition balanced :: "fee_structure \<Rightarrow> bool" where
  "balanced f =
     (fs_paid_amount f + fs_pending_amount f = fs_total_fee f - fs_discount_applied f)"

definition float_balanced :: "fee_structure \<Rightarrow> bool" where
  "float_balanced f =
     (fadd (fs_paid_amount f) (fs_pending_amount f)
        = fsub (fs_total_fee f) (fs_discount_applied f))"

text \<open>
  A payment stays within the pending amount, and neither of the two float operations of
  the handler rounds.
\<close>

definition exact_within_pending :: "fee_structure \<Rightarrow> amount \<Rightarrow> bool" where
  "exact_within_pending f a =
     (a \<le> fs_pending_amount f \<and>
      fadd (fs_paid_amount f) a = fs_paid_amount f + a \<and>
      fsub (fs_pending_amount f) a = fs_pending_amount f - a)"

fun all_within_pending :: "db \<Rightarrow> string \<Rightarrow> payment_request list \<Rightarrow> bool" where
  "all_within_pending d fee_structure_id [] = True"
| "all_within_pending d fee_structure_id (r # rs) =
     ((case find_fee d fee_structure_id of
         None \<Rightarrow> False
       | Some f \<Rightarrow> exact_within_pending f (pr_amount r)) \<and>
      all_within_pending (fst (record_payment_request d fee_structure_id r)) fee_structure_id rs)"

text \<open>What one recorded payment makes of the fee structure it finds.\<close>

definition pay :: "amount \<Rightarrow> fee_structure \<Rightarrow> fee_structure" where
  "pay a f = f\<lparr>fs_paid_amount := fadd (fs_paid_amount f) a,
              fs_pending_amount := max 0 (fsub (fs_pending_amount f) a)\<rparr>"

subsection \<open>Rosters and installment sums\<close>

text \<open>The roster of the batch that a request for \<open>batch_id\<close> finds.\<close>

definition roster :: "db \<Rightarrow> string \<Rightarrow> string list" where
  "roster d batch_id =
     (case find_batch d batch_id of None \<Rightarrow> [] | Some b \<Rightarrow> get_enrolled_students b)"

text \<open>
  The sum of the installment amounts of a fee structure, over the values of the floats and
  as Python's \<^verbatim>\<open>sum(...)\<close> adds them.
\<close>

definition installment_sum :: "fee_structure \<Rightarrow> real" where
  "installment_sum f = sum_list (map inst_amount (fs_installments f))"

definition installment_float_sum :: "fee_structure \<Rightarrow> amount" where
  "installment_float_sum f = foldl fadd 0 (map inst_amount (fs_installments f))"

text \<open>The installments sum to the amount due, in the one reading and in the other.\<close>

definition installments_exact :: "fee_structure \<Rightarrow> bool" where
  "installments_exact f = (installment_sum f = fs_total_fee f - fs_discount_applied f)"

definition installments_float_exact :: "fee_structure \<Rightarrow> bool" where
  "installments_float_exact f =
     (installment_float_sum f = fsub (fs_total_fee f) (fs_discount_applied f))"

text \<open>The invariant of a batch, and its second half for the batch of a request.\<close>

definition batch_invariant :: "batch \<Rightarrow> bool" where
  "batch_invariant b =
     (int (length (get_enrolled_students b)) \<le> get_max_students b \<and>
      distinct (get_enrolled_students b))"

definition roster_distinct :: "db \<Rightarrow> string \<Rightarrow> bool" where
  "roster_distinct d bid = distinct (roster d bid)"

subsection \<open>Example stores\<close>

text \<open>
  A ledger with the fee structure of the specification's scenario (fee 10000, discount 1000,
  three installments) and a second one whose first installment is marked paid.
\<close>

definition ledger_db :: db where
  "ledger_db =
     \<lparr>batches = [], student_profiles = [],
      fee_structures =
        [\<lparr>fs_id = ''F1'', fs_student_id = ''alice'', fs_course_id = ''N5'', fs_batch_id = ''B1'',
          fs_total_fee = 10000, fs_paid_amount = 0, fs_pending_amount = 9000,
          fs_installments =
            [\<lparr>inst_number = 1, inst_amount = 3000, inst_due_date = 2592000,
              inst_status = Some ''pending''\<rparr>,
             \<lparr>inst_number = 2, inst_amount = 3000, inst_due_date = 5184000,
              inst_status = Some ''pending''\<rparr>,
             \<lparr>inst_number = 3, inst_amount = 3000, inst_due_date = 7776000,
              inst_status = Some ''pending''\<rparr>],
          fs_discount_applied = 1000, fs_created_at = 0\<rparr>,
         \<lparr>fs_id = ''F2'', fs_student_id = ''bob'', fs_course_id = ''N5'', fs_batch_id = ''B1'',
          fs_total_fee = 6000, fs_paid_amount = 3000, fs_pending_amount = 3000,
          fs_installments =
            [\<lparr>inst_number = 1, inst_amount = 3000, inst_due_date = 2592000,
              inst_status = Some ''paid''\<rparr>,
             \<lparr>inst_number = 2, inst_amount = 3000, inst_due_date = 5184000,
              inst_status = Some ''pending''\<rparr>],
          fs_discount_applied = 0, fs_created_at = 0\<rparr>],
      fee_payments = [], users = []\<rparr>"

definition req :: "amount \<Rightarrow> payment_request" where
  "req a = \<lparr>pr_receipt_uuid = ''3f2a9c1e-7b4d-4e2a-9c1e-0123456789ab'',
            pr_payment_uuid = ''9d8c7b6a-1f2e-4d3c-8b7a-ba9876543210'',
            pr_today = ''20240115'', pr_now = 86400, pr_amount = a,
            pr_payment_method = ''cash'', pr_transaction_id = None, pr_notes = None\<rparr>"

text \<open>The float 0.1, and a ledger with one fee structure of 100.\<close>

definition dime :: amount where
  "dime = 3602879701896397 / 36028797018963968"

definition small_ledger_db :: db where
  "small_ledger_db =
     \<lparr>batches = [], student_profiles = [],
      fee_structures =
        [\<lparr>fs_id = ''F3'', fs_student_id = ''dave'', fs_course_id = ''N5'', fs_batch_id = ''B1'',
          fs_total_fee = 100, fs_paid_amount = 0, fs_pending_amount = 100,
          fs_installments = [], fs_discount_applied = 0, fs_created_at = 0\<rparr>],
      fee_payments = [], users = []\<rparr>"

text \<open>A batch of two places, both taken.\<close>

definition full_db :: db where
  "full_db =
     \<lparr>batches = [\<lparr>b_id = ''B1'', b_course_id = ''N5'', b_max_students = Some 2,
                  b_enrolled_students = Some [''alice'', ''bob'']\<rparr>],
      student_profiles = [], fee_structures = [], fee_payments = [], users = []\<rparr>"

text \<open>
  A school with a batch of two places, one taken, a batch without a roster or a capacity
  field, two student profiles, and the fee structures of the ledger.
\<close>

definition school_db :: db where
  "school_db =
     \<lparr>batches =
        [\<lparr>b_id = ''B1'', b_course_id = ''N5'', b_max_students = Some 2,
          b_enrolled_students = Some [''alice'']\<rparr>,
         \<lparr>b_id = ''B2'', b_course_id = ''N4'', b_max_students = None,
          b_enrolled_students = None\<rparr>],
      student_profiles =
        [\<lparr>sp_user_id = ''alice'', sp_batch_id = Some ''B1'', sp_enrolled_courses = [''N5''],
          sp_status = ''active''\<rparr>,
         \<lparr>sp_user_id = ''carol'', sp_batch_id = None, sp_enrolled_courses = [],
          sp_status = ''active''\<rparr>],
      fee_structures = fee_structures ledger_db,
      fee_payments = [],
      users =
        [\<lparr>u_id = ''alice'', u_name = Some ''Alice'', u_email = Some ''alice@example.com'',
          u_phone = ''100'', u_role = ''student'', u_hashed_password = ''x'', u_created_at = 0\<rparr>,
         \<lparr>u_id = ''carol'', u_name = Some ''Carol'', u_email = Some ''carol@example.com'',
          u_phone = ''300'', u_role = ''student'', u_hashed_password = ''y'',
          u_created_at = 0\<rparr>]\<rparr>"

text \<open>Rows of a bulk request, and the UUIDs that its rows draw.\<close>

definition carol_row :: student_data where
  "carol_row = \<lparr>sd_name = Some ''Carol'', sd_email = Some ''carol@example.com'',
                sd_phone = Some ''300'', sd_total_fee = None, sd_discount = None\<rparr>"

definition dave_row :: student_data where
  "dave_row = \<lparr>sd_name = Some ''Dave'', sd_email = Some ''dave@example.com'',
               sd_phone = None, sd_total_fee = Some 17999, sd_discount = Some 0\<rparr>"

definition erin_row :: student_data where
  "erin_row = \<lparr>sd_name = Some ''Erin'', sd_email = Some ''erin@example.com'',
               sd_phone = Some ''500'', sd_total_fee = Some 0, sd_discount = None\<rparr>"

definition bulk_uuids :: "nat \<Rightarrow> string \<times> string" where
  "bulk_uuids i =
     (if i = 0 then (''u-0'', ''f-0'') else if i = 1 then (''u-1'', ''f-1'')
      else (''u-2'', ''f-2''))"

section \<open>Properties\<close>

subsection \<open>Evaluating floats\<close>

lemmas fl_eval =
  fl_def ilog2_def bit_length.simps round_half_even_def pow2_def Let_def
  fadd_def fsub_def fdiv_int_def

lemma float_examples:
  "fadd 0 5000 = 5000" "fsub 9000 5000 = 4000" "fadd 5000 4000 = 9000" "fsub 4000 4000 = 0"
  "fadd 5000 6000 = 11000" "fsub 4000 6000 = - 2000" "fadd 11000 0 = 11000"
  "fsub 10000 1000 = 9000" "fadd 0 (- 100) = - 100" "fsub 9000 (- 100) = 9100"
  "fadd 3000 1000 = 4000" "fsub 3000 1000 = 2000" "fadd 0 10000 = 10000"
  "fsub 9000 10000 = - 1000"
  by (simp_all add: fl_eval)

text \<open>
  The rounding at work: 0.1 + 0.2 is not 0.3, a third is rounded down, and an odd integer
  above \<open>2 ^ 53\<close> is not a float.
\<close>

lemma float_sanity:
  "fl (1 / 10) = 3602879701896397 / 36028797018963968"
  "fl (2 / 10) = 3602879701896397 / 18014398509481984"
  "fl (3 / 10) = 5404319552844595 / 18014398509481984"
  "fadd (fl (1 / 10)) (fl (2 / 10)) = 1351079888211149 / 4503599627370496"
  "fadd (fl (1 / 10)) (fl (2 / 10)) \<noteq> fl (3 / 10)"
  "fl (1 / 3) = 6004799503160661 / 18014398509481984"
  "fl 9007199254740993 = 9007199254740992"
  by (simp_all add: fl_eval)

subsection \<open>The store operations\<close>

lemma find_one_update_one:
  assumes "\<And>x. P x \<Longrightarrow> P (f x)"
  shows "find_one P (update_one P f xs) = map_option f (find_one P xs)"
  using assms by (induction xs) (auto simp: find_one_def)

lemma update_one_twice:
  assumes "\<And>x. P x \<Longrightarrow> P (f x)" and "\<And>x. P x \<Longrightarrow> f (f x) = f x"
  shows "update_one P f (update_one P f xs) = update_one P f xs"
  using assms by (induction xs) auto

lemma map_update_one_frame:
  assumes "\<And>x. g (f x) = g x"
  shows "map g (update_one P f xs) = map g xs"
  using assms by (induction xs) auto

lemma length_update_one: "length (update_one P f xs) = length xs"
  by (induction xs) auto

subsection \<open>What a recorded payment does\<close>

lemma record_fee_payment_found:
  assumes "find_fee d fid = Some fee"
  shows "record_fee_payment ru pu today now d fid a m t n =
     (d\<lparr>fee_payments := fee_payments d @
            [\<lparr>fp_id = pu, fp_fee_structure_id = fid, fp_student_id = fs_student_id fee,
              fp_amount = a, fp_payment_date = now, fp_payment_method = m,
              fp_transaction_id = t,
              fp_installment_number = int (paid_count (fs_installments fee)) + 1,
              fp_receipt_number = make_receipt_number today ru, fp_notes = n\<rparr>],
         fee_structures := update_one (\<lambda>f. fs_id f = fid)
            (\<lambda>f. f\<lparr>fs_paid_amount := fadd (fs_paid_amount fee) a,
                    fs_pending_amount := max 0 (fsub (fs_pending_amount fee) a)\<rparr>)
            (fee_structures d)\<rparr>,
      Inr (MessageReceipt ''Payment recorded'' (make_receipt_number today ru)))"
  using assms by (simp add: record_fee_payment_def Let_def insert_one_def)

lemma record_fee_payment_missing:
  assumes "find_fee d fid = None"
  shows "record_fee_payment ru pu today now d fid a m t n = (d, Inl NotFoundFee)"
  using assms by (simp add: record_fee_payment_def)

lemma find_fee_after_payment:
  assumes "find_fee d fid = Some fee"
  shows "find_fee (fst (record_fee_payment ru pu today now d fid a m t n)) fid
           = Some (pay a fee)"
proof -
  have "find_one (\<lambda>f. fs_id f = fid)
          (update_one (\<lambda>f. fs_id f = fid)
             (\<lambda>f. f\<lparr>fs_paid_amount := fadd (fs_paid_amount fee) a,
                     fs_pending_amount := max 0 (fsub (fs_pending_amount fee) a)\<rparr>)
             (fee_structures d))
        = map_option (\<lambda>f. f\<lparr>fs_paid_amount := fadd (fs_paid_amount fee) a,
                     fs_pending_amount := max 0 (fsub (fs_pending_amount fee) a)\<rparr>)
            (find_one (\<lambda>f. fs_id f = fid) (fee_structures d))"
    by (rule find_one_update_one) simp
  then show ?thesis
    using assms by (simp add: record_fee_payment_found [OF assms] find_fee_def pay_def)
qed

lemma pay_nonneg: "0 \<le> fs_pending_amount (pay a f)"
  by (simp add: pay_def)

lemma pay_frame:
  "fs_total_fee (pay a f) = fs_total_fee f"
  "fs_discount_applied (pay a f) = fs_discount_applied f"
  "fs_installments (pay a f) = fs_installments f"
  by (simp_all add: pay_def)

lemma pay_balanced:
  assumes "balanced f" and "exact_within_pending f a"
  shows "balanced (pay a f)"
  using assms by (simp add: balanced_def exact_within_pending_def pay_def)

lemma record_payments_step:
  assumes "find_fee d fid = Some f"
  shows "find_fee (fst (record_payment_request d fid r)) fid = Some (pay (pr_amount r) f)"
  using assms by (simp add: record_payment_request_def find_fee_after_payment)

lemma record_payments_found:
  assumes "find_fee d fid = Some f"
  shows "\<exists>f'. find_fee (record_payments d fid rs) fid = Some f' \<and>
              fs_total_fee f' = fs_total_fee f \<and>
              fs_discount_applied f' = fs_discount_applied f \<and>
              (rs \<noteq> [] \<longrightarrow> 0 \<le> fs_pending_amount f') \<and>
              (balanced f \<and> all_within_pending d fid rs \<longrightarrow> balanced f')"
  using assms
proof (induction rs arbitrary: d f)
  case Nil
  then show ?case by simp
next
  case (Cons r rs)
  let ?d1 = "fst (record_payment_request d fid r)"
  have step: "find_fee ?d1 fid = Some (pay (pr_amount r) f)"
    using Cons.prems by (rule record_payments_step)
  from Cons.IH [OF step] obtain f' where
    f': "find_fee (record_payments ?d1 fid rs) fid = Some f'"
    and fr: "fs_total_fee f' = fs_total_fee f" "fs_discount_applied f' = fs_discount_applied f"
    and nn: "rs \<noteq> [] \<longrightarrow> 0 \<le> fs_pending_amount f'"
    and bal: "balanced (pay (pr_amount r) f) \<and> all_within_pending ?d1 fid rs \<longrightarrow> balanced f'"
    by (auto simp: pay_frame)
  have "0 \<le> fs_pending_amount f'"
  proof (cases rs)
    case Nil
    with f' step pay_nonneg [of "pr_amount r" f] show ?thesis by simp
  next
    case (Cons a list)
    with nn show ?thesis by simp
  qed
  moreover have "balanced f \<and> all_within_pending d fid (r # rs) \<longrightarrow> balanced f'"
    using bal Cons.prems by (auto intro: pay_balanced)
  ultimately show ?case using f' fr by simp
qed

lemma ledger_db_F1:
  "find_fee ledger_db ''F1'' = Some (hd (fee_structures ledger_db))"
  by (simp add: find_fee_def find_one_def ledger_db_def)

lemma ledger_db_F2:
  "find_fee ledger_db ''F2'' = Some (hd (tl (fee_structures ledger_db)))"
  by (simp add: find_fee_def find_one_def ledger_db_def)

lemma ledger_db_F9:
  "find_fee ledger_db ''F9'' = None"
  by (simp add: find_fee_def find_one_def ledger_db_def)

lemma ledger_5000:
  "find_fee (fst (record_payment_request ledger_db ''F1'' (req 5000))) ''F1''
     = Some (pay 5000 (hd (fee_structures ledger_db)))"
  using record_payments_step [OF ledger_db_F1, of "req 5000"] by (simp add: req_def)

lemma ledger_5000_4000:
  "find_fee (record_payments ledger_db ''F1'' [req 5000, req 4000]) ''F1''
     = Some (pay 4000 (pay 5000 (hd (fee_structures ledger_db))))"
  using record_payments_step [OF ledger_5000, of "req 4000"] by (simp add: req_def)

lemma ledger_5000_6000:
  "find_fee (record_payments ledger_db ''F1'' [req 5000, req 6000]) ''F1''
     = Some (pay 6000 (pay 5000 (hd (fee_structures ledger_db))))"
  using record_payments_step [OF ledger_5000, of "req 6000"] by (simp add: req_def)

subsection \<open>The ledger equation over sequences of payments\<close>

text \<open>
  Claim C1, as the code has it. After every payment of a non-empty sequence on an existing
  fee structure the pending amount is not negative, and the fee and the discount are the
  ones before. The equation \<open>paid_amount + pending_amount = total_fee - discount_applied\<close>
  holds after the sequence when it held before it and every payment stayed within the
  amount pending at its time, with no rounding in the two float operations. (Every prefix
  of a sequence is a sequence, so this speaks of the state after each call.)
\<close>

theorem payments_pending_nonneg_balance_within_pending:
  assumes "find_fee d fid = Some f" and "rs \<noteq> []"
  shows "\<exists>f'. find_fee (record_payments d fid rs) fid = Some f' \<and>
              fs_total_fee f' = fs_total_fee f \<and>
              fs_discount_applied f' = fs_discount_applied f \<and>
              0 \<le> fs_pending_amount f' \<and>
              (balanced f \<and> all_within_pending d fid rs \<longrightarrow> balanced f')"
  using record_payments_found [OF assms(1), of rs] assms(2) by auto

theorem payments_pending_nonneg_balance_within_pending_witness:
  "all_within_pending ledger_db ''F1'' [req 5000, req 4000] \<and>
   map_option (\<lambda>f. (fs_paid_amount f, fs_pending_amount f, balanced f))
     (find_fee (record_payments ledger_db ''F1'' [req 5000, req 4000]) ''F1'')
     = Some (9000, 0, True)"
proof -
  have b: "balanced (hd (fee_structures ledger_db))"
    by (simp add: balanced_def ledger_db_def)
  have w: "all_within_pending ledger_db ''F1'' [req 5000, req 4000]"
    by (simp add: ledger_db_F1 ledger_5000 exact_within_pending_def)
       (simp add: pay_def ledger_db_def req_def float_examples)
  have n: "[req 5000, req 4000] \<noteq> []"
    by simp
  show ?thesis
    using payments_pending_nonneg_balance_within_pending [OF ledger_db_F1 n] b w
    unfolding ledger_5000_4000
    by (simp add: pay_def ledger_db_def float_examples)
qed

text \<open>
  The claim as stated fails on the specification's own scenario: 5000 and then 6000 paid on
  a structure with 9000 pending leave 11000 paid and nothing pending, against 9000 due.
\<close>

theorem overpayment_breaks_balance:
  "map_option fs_paid_amount
     (find_fee (record_payments ledger_db ''F1'' [req 5000, req 6000]) ''F1'') = Some 11000 \<and>
   map_option fs_pending_amount
     (find_fee (record_payments ledger_db ''F1'' [req 5000, req 6000]) ''F1'') = Some 0 \<and>
   map_option fs_total_fee
     (find_fee (record_payments ledger_db ''F1'' [req 5000, req 6000]) ''F1'') = Some 10000 \<and>
   map_option fs_discount_applied
     (find_fee (record_payments ledger_db ''F1'' [req 5000, req 6000]) ''F1'') = Some 1000 \<and>
   map_option balanced
     (find_fee (record_payments ledger_db ''F1'' [req 5000, req 6000]) ''F1'') = Some False \<and>
   map_option float_balanced
     (find_fee (record_payments ledger_db ''F1'' [req 5000, req 6000]) ''F1'') = Some False"
  unfolding ledger_5000_6000
  by (simp add: pay_def ledger_db_def float_examples balanced_def float_balanced_def)

lemma dime_examples:
  "fl (1 / 10) = dime"
  "fadd 0 dime = dime" "fadd dime dime = 3602879701896397 / 18014398509481984"
  "fsub 100 dime = 3514918771674317 / 35184372088832"
  "fsub (3514918771674317 / 35184372088832) dime = 1755700167232717 / 17592186044416"
  "fadd (3602879701896397 / 18014398509481984) (1755700167232717 / 17592186044416)
     = 7036874417766401 / 70368744177664"
  "fsub 100 0 = 100"
  by (simp_all add: fl_eval dime_def)

lemma small_ledger_F3:
  "find_fee small_ledger_db ''F3'' = Some (hd (fee_structures small_ledger_db))"
  by (simp add: find_fee_def find_one_def small_ledger_db_def)

lemma small_ledger_dime:
  "find_fee (fst (record_payment_request small_ledger_db ''F3'' (req dime))) ''F3''
     = Some (pay dime (hd (fee_structures small_ledger_db)))"
  using record_payments_step [OF small_ledger_F3, of "req dime"] by (simp add: req_def)

lemma small_ledger_two_dimes:
  "find_fee (record_payments small_ledger_db ''F3'' [req dime, req dime]) ''F3''
     = Some (pay dime (pay dime (hd (fee_structures small_ledger_db))))"
  using record_payments_step [OF small_ledger_dime, of "req dime"] by (simp add: req_def)

text \<open>
  Rounding alone breaks the equation: two payments of 0.1 on a fee of 100, each well within
  the pending amount, leave 0.2 paid and 99.80000000000001 pending.
\<close>

lemma rounding_breaks_balance:
  "map_option (\<lambda>f. (fs_paid_amount f, fs_pending_amount f))
     (find_fee (record_payments small_ledger_db ''F3'' [req dime, req dime]) ''F3'')
     = Some (3602879701896397 / 18014398509481984, 1755700167232717 / 17592186044416)"
  "map_option balanced
     (find_fee (record_payments small_ledger_db ''F3'' [req dime, req dime]) ''F3'') = Some False"
  "map_option float_balanced
     (find_fee (record_payments small_ledger_db ''F3'' [req dime, req dime]) ''F3'') = Some False"
  unfolding small_ledger_two_dimes
  by (simp_all add: pay_def small_ledger_db_def dime_examples balanced_def float_balanced_def)

subsection \<open>A full batch\<close>

text \<open>
  Claim C5. When the roster of the batch has reached \<open>max_students\<close>, each of the three
  single-enrollment handlers answers \<open>CapacityExceeded\<close> and leaves the store as it was,
  whoever the student is: the capacity is checked before the roster is searched for the
  student.
\<close>

theorem full_batch_rejected:
  assumes "find_batch d batch_id = Some batch" and "batch_full batch"
  shows "enroll_student d batch_id student_id = (d, Inl CapacityExceeded) \<and>
         enroll_student_in_batch d batch_id student_id = (d, Inl CapacityExceeded) \<and>
         enroll_student_with_fees uuid now d batch_id student_id total_fee discount installments
           = (d, Inl CapacityExceeded)"
  using assms
  by (simp add: enroll_student_def enroll_student_in_batch_def enroll_student_with_fees_def)

theorem full_batch_rejected_witness:
  "''alice'' \<in> set (get_enrolled_students (hd (batches full_db))) \<and>
   enroll_student full_db ''B1'' ''alice'' = (full_db, Inl CapacityExceeded) \<and>
   enroll_student_in_batch full_db ''B1'' ''alice'' = (full_db, Inl CapacityExceeded) \<and>
   enroll_student_with_fees ''f1'' 0 full_db ''B1'' ''alice'' 9000 0 3
     = (full_db, Inl CapacityExceeded) \<and>
   CapacityExceeded \<noteq> AlreadyEnrolled"
proof -
  have b: "find_batch full_db ''B1'' = Some (hd (batches full_db))"
    by (simp add: find_batch_def find_one_def full_db_def)
  have f: "batch_full (hd (batches full_db))"
    by (simp add: batch_full_def full_db_def get_max_students_def get_enrolled_students_def)
  show ?thesis
    using full_batch_rejected [OF b f]
    by (simp add: CapacityExceeded_def AlreadyEnrolled_def full_db_def
        get_enrolled_students_def)
qed

subsection \<open>The effect of one payment\<close>

text \<open>
  Claim C6. A payment on an existing fee structure succeeds and leaves
  \<open>paid_amount + amount\<close> paid and \<open>max(0, pending_amount - amount)\<close> pending, the sum and
  the difference being Python's float operations. An amount above the pending amount is
  not rejected: the request succeeds like any other, and the witness shows 10000 paid on
  9000 pending leaving 10000 paid and nothing pending.
\<close>

theorem record_payment_effect:
  assumes "find_fee d fid = Some fee"
  shows "map_option fs_paid_amount
           (find_fee (fst (record_fee_payment ru pu today now d fid a m t n)) fid)
           = Some (fadd (fs_paid_amount fee) a) \<and>
         map_option fs_pending_amount
           (find_fee (fst (record_fee_payment ru pu today now d fid a m t n)) fid)
           = Some (max 0 (fsub (fs_pending_amount fee) a)) \<and>
         snd (record_fee_payment ru pu today now d fid a m t n)
           = Inr (MessageReceipt ''Payment recorded'' (make_receipt_number today ru))"
proof -
  note h = find_fee_after_payment [OF assms, of ru pu today now a m t n]
  show ?thesis
    unfolding h by (simp add: pay_def record_fee_payment_found [OF assms])
qed

theorem record_payment_effect_witness:
  "map_option fs_paid_amount
     (find_fee (fst (record_fee_payment ''3f2a9c1e'' ''9d8c7b6a'' ''20240115'' 86400 ledger_db
        ''F1'' 10000 ''upi'' (Some ''TXN1'') None)) ''F1'') = Some 10000 \<and>
   map_option fs_pending_amount
     (find_fee (fst (record_fee_payment ''3f2a9c1e'' ''9d8c7b6a'' ''20240115'' 86400 ledger_db
        ''F1'' 10000 ''upi'' (Some ''TXN1'') None)) ''F1'') = Some 0 \<and>
   snd (record_fee_payment ''3f2a9c1e'' ''9d8c7b6a'' ''20240115'' 86400 ledger_db
        ''F1'' 10000 ''upi'' (Some ''TXN1'') None)
     = Inr (MessageReceipt ''Payment recorded'' (make_receipt_number ''20240115'' ''3f2a9c1e''))"
  using record_payment_effect [OF ledger_db_F1,
      of "''3f2a9c1e''" "''9d8c7b6a''" "''20240115''" 86400 10000 "''upi''" "Some ''TXN1''" None]
  by (simp add: ledger_db_def float_examples)

subsection \<open>Payments and installments\<close>

text \<open>
  Claim C9. A recorded payment leaves the installment list of every fee structure as it
  was, so the number of installments marked paid does not change; the payment record gets
  that number plus one as its installment number.
\<close>

theorem record_payment_keeps_installments:
  assumes "find_fee d fid = Some fee"
  shows "map fs_installments (fee_structures (fst (record_fee_payment ru pu today now d fid a m t n)))
           = map fs_installments (fee_structures d) \<and>
         map fp_installment_number
             (fee_payments (fst (record_fee_payment ru pu today now d fid a m t n)))
           = map fp_installment_number (fee_payments d)
               @ [int (paid_count (fs_installments fee)) + 1] \<and>
         map_option (\<lambda>f. paid_count (fs_installments f))
             (find_fee (fst (record_fee_payment ru pu today now d fid a m t n)) fid)
           = Some (paid_count (fs_installments fee))"
proof -
  note h = find_fee_after_payment [OF assms, of ru pu today now a m t n]
  show ?thesis
    unfolding h
    by (simp add: record_fee_payment_found [OF assms] map_update_one_frame pay_frame)
qed

theorem record_payment_keeps_installments_witness:
  "map fs_installments (fee_structures (fst (record_fee_payment ''3f2a9c1e'' ''9d8c7b6a''
       ''20240115'' 86400 ledger_db ''F2'' 1000 ''cash'' None None)))
     = map fs_installments (fee_structures ledger_db) \<and>
   map fp_installment_number (fee_payments (fst (record_fee_payment ''3f2a9c1e'' ''9d8c7b6a''
       ''20240115'' 86400 ledger_db ''F2'' 1000 ''cash'' None None))) = [2] \<and>
   map_option (\<lambda>f. paid_count (fs_installments f))
     (find_fee (fst (record_fee_payment ''3f2a9c1e'' ''9d8c7b6a''
       ''20240115'' 86400 ledger_db ''F2'' 1000 ''cash'' None None)) ''F2'') = Some 1"
  using record_payment_keeps_installments [OF ledger_db_F2,
      of "''3f2a9c1e''" "''9d8c7b6a''" "''20240115''" 86400 1000 "''cash''" None None]
  by (simp add: ledger_db_def paid_count_def)

subsection \<open>Failing payments\<close>

text \<open>
  Claim C7, as the code has it. Without the fee structure the request fails with
  \<open>NotFound\<close> and the store is as it was. With the fee structure the request succeeds
  for every amount, positive or not: the payment is appended with that amount and the fee
  structure is updated with it.
\<close>

theorem record_payment_not_found_or_recorded:
  "(case find_fee d fid of
      None \<Rightarrow> record_fee_payment ru pu today now d fid a m t n = (d, Inl NotFoundFee)
    | Some fee \<Rightarrow>
        snd (record_fee_payment ru pu today now d fid a m t n)
          = Inr (MessageReceipt ''Payment recorded'' (make_receipt_number today ru)) \<and>
        map fp_amount (fee_payments (fst (record_fee_payment ru pu today now d fid a m t n)))
          = map fp_amount (fee_payments d) @ [a] \<and>
        find_fee (fst (record_fee_payment ru pu today now d fid a m t n)) fid
          = Some (pay a fee))"
proof (cases "find_fee d fid")
  case None
  then show ?thesis by (simp add: record_fee_payment_missing)
next
  case (Some fee)
  note h = find_fee_after_payment [OF Some, of ru pu today now a m t n]
  show ?thesis
    unfolding h using Some by (simp add: record_fee_payment_found [OF Some])
qed

theorem record_payment_not_found_or_recorded_witness:
  "record_fee_payment ''3f2a9c1e'' ''9d8c7b6a'' ''20240115'' 86400 ledger_db ''F9'' 500 ''cash''
     None None = (ledger_db, Inl NotFoundFee) \<and>
   snd (record_fee_payment ''3f2a9c1e'' ''9d8c7b6a'' ''20240115'' 86400 ledger_db ''F1'' 0 ''cash''
     None None)
     = Inr (MessageReceipt ''Payment recorded'' (make_receipt_number ''20240115'' ''3f2a9c1e'')) \<and>
   map fp_amount (fee_payments (fst (record_fee_payment ''3f2a9c1e'' ''9d8c7b6a'' ''20240115''
     86400 ledger_db ''F1'' 0 ''cash'' None None))) = [0]"
  using record_payment_not_found_or_recorded [where d = ledger_db and fid = "''F9''"
      and ru = "''3f2a9c1e''" and pu = "''9d8c7b6a''" and today = "''20240115''" and now = 86400
      and a = 500 and m = "''cash''" and t = None and n = None]
    record_payment_not_found_or_recorded [where d = ledger_db and fid = "''F1''"
      and ru = "''3f2a9c1e''" and pu = "''9d8c7b6a''" and today = "''20240115''" and now = 86400
      and a = 0 and m = "''cash''" and t = None and n = None]
  by (simp add: ledger_db_F9 ledger_db_F1) (simp add: ledger_db_def)

text \<open>
  The claim as stated fails: a payment of \<open>-100\<close> is accepted and recorded; it lowers
  the paid amount and raises the pending amount.
\<close>

theorem nonpositive_payment_recorded:
  "snd (record_fee_payment ''3f2a9c1e'' ''9d8c7b6a'' ''20240115'' 86400 ledger_db ''F1'' (- 100)
     ''cash'' None None)
     = Inr (MessageReceipt ''Payment recorded'' (make_receipt_number ''20240115'' ''3f2a9c1e'')) \<and>
   fee_payments ledger_db = [] \<and>
   map fp_amount (fee_payments (fst (record_fee_payment ''3f2a9c1e'' ''9d8c7b6a'' ''20240115''
     86400 ledger_db ''F1'' (- 100) ''cash'' None None))) = [- 100] \<and>
   map_option fs_paid_amount (find_fee ledger_db ''F1'') = Some 0 \<and>
   map_option fs_pending_amount (find_fee ledger_db ''F1'') = Some 9000 \<and>
   map_option fs_paid_amount
     (find_fee (fst (record_fee_payment ''3f2a9c1e'' ''9d8c7b6a'' ''20240115''
        86400 ledger_db ''F1'' (- 100) ''cash'' None None)) ''F1'') = Some (- 100) \<and>
   map_option fs_pending_amount
     (find_fee (fst (record_fee_payment ''3f2a9c1e'' ''9d8c7b6a'' ''20240115''
        86400 ledger_db ''F1'' (- 100) ''cash'' None None)) ''F1'') = Some 9100"
proof -
  note h = find_fee_after_payment [OF ledger_db_F1,
      of "''3f2a9c1e''" "''9d8c7b6a''" "''20240115''" 86400 "- 100" "''cash''" None None]
  note r = record_fee_payment_found [OF ledger_db_F1,
      of "''3f2a9c1e''" "''9d8c7b6a''" "''20240115''" 86400 "- 100" "''cash''" None None]
  show ?thesis
    apply (simp only: h)
    apply (simp only: r ledger_db_F1)
    apply (simp add: pay_def ledger_db_def float_examples)
    done
qed

subsection \<open>Removing a student\<close>

lemma pull_student_twice: "pull_student s (pull_student s b) = pull_student s b"
  by (cases "b_enrolled_students b") (simp_all add: pull_student_def pull_def)

lemma pull_student_absent: "s \<notin> set (get_enrolled_students (pull_student s b))"
  by (cases "b_enrolled_students b")
     (simp_all add: pull_student_def pull_def get_enrolled_students_def)

lemma pull_student_id: "b_id (pull_student s b) = b_id b"
  by (simp add: pull_student_def)

lemma update_one_pull_twice:
  "update_one (\<lambda>b. b_id b = bid) (pull_student s)
     (update_one (\<lambda>b. b_id b = bid) (pull_student s) xs)
   = update_one (\<lambda>b. b_id b = bid) (pull_student s) xs"
  by (rule update_one_twice) (simp_all add: pull_student_id pull_student_twice)

lemma update_one_clear_twice:
  "update_one (\<lambda>p. sp_user_id p = s) (\<lambda>p. p\<lparr>sp_batch_id := None\<rparr>)
     (update_one (\<lambda>p. sp_user_id p = s) (\<lambda>p. p\<lparr>sp_batch_id := None\<rparr>) xs)
   = update_one (\<lambda>p. sp_user_id p = s) (\<lambda>p. p\<lparr>sp_batch_id := None\<rparr>) xs"
  by (rule update_one_twice) simp_all

lemma remove_student_from_batch_eq:
  "remove_student_from_batch d bid s =
     (d\<lparr>batches := update_one (\<lambda>b. b_id b = bid) (pull_student s) (batches d),
        student_profiles := update_one (\<lambda>p. sp_user_id p = s) (\<lambda>p. p\<lparr>sp_batch_id := None\<rparr>)
           (student_profiles d)\<rparr>,
      Inr (Message ''Student removed from batch''))"
  by (simp add: remove_student_from_batch_def Let_def)

text \<open>
  Claim C10. Removing a student a second time gives the store and the answer of the first
  removal, and the answer is never an error. After the removal the student is not in the
  roster of the batch and the profile, if there is one, has no batch; the enrolled courses
  of every profile, the fee structures and the fee payments are as they were.
\<close>

theorem remove_student_idempotent:
  "remove_student_from_batch (fst (remove_student_from_batch d bid s)) bid s
     = remove_student_from_batch d bid s \<and>
   snd (remove_student_from_batch d bid s) = Inr (Message ''Student removed from batch'') \<and>
   (case find_batch (fst (remove_student_from_batch d bid s)) bid of
      None \<Rightarrow> find_batch d bid = None
    | Some b \<Rightarrow> s \<notin> set (get_enrolled_students b)) \<and>
   (case find_profile (fst (remove_student_from_batch d bid s)) s of
      None \<Rightarrow> find_profile d s = None
    | Some p \<Rightarrow> sp_batch_id p = None) \<and>
   map sp_enrolled_courses (student_profiles (fst (remove_student_from_batch d bid s)))
     = map sp_enrolled_courses (student_profiles d) \<and>
   fee_structures (fst (remove_student_from_batch d bid s)) = fee_structures d \<and>
   fee_payments (fst (remove_student_from_batch d bid s)) = fee_payments d"
proof -
  have b: "find_batch (fst (remove_student_from_batch d bid s)) bid
             = map_option (pull_student s) (find_batch d bid)"
    by (simp add: remove_student_from_batch_eq find_batch_def find_one_update_one
        pull_student_id)
  have p: "find_profile (fst (remove_student_from_batch d bid s)) s
             = map_option (\<lambda>p. p\<lparr>sp_batch_id := None\<rparr>) (find_profile d s)"
    by (simp add: remove_student_from_batch_eq find_profile_def find_one_update_one)
  have i: "remove_student_from_batch (fst (remove_student_from_batch d bid s)) bid s
             = remove_student_from_batch d bid s"
    by (simp add: remove_student_from_batch_eq update_one_pull_twice update_one_clear_twice)
  have c: "map sp_enrolled_courses (student_profiles (fst (remove_student_from_batch d bid s)))
             = map sp_enrolled_courses (student_profiles d)"
    by (simp add: remove_student_from_batch_eq map_update_one_frame)
  show ?thesis
    unfolding b p i
    using c
    by (simp add: remove_student_from_batch_eq pull_student_absent split: option.splits)
qed

theorem remove_student_idempotent_witness:
  "map_option get_enrolled_students
     (find_batch (fst (remove_student_from_batch school_db ''B1'' ''alice'')) ''B1'') = Some [] \<and>
   map_option sp_batch_id
     (find_profile (fst (remove_student_from_batch school_db ''B1'' ''alice'')) ''alice'')
     = Some None \<and>
   remove_student_from_batch (fst (remove_student_from_batch school_db ''B1'' ''alice''))
       ''B1'' ''alice''
     = remove_student_from_batch school_db ''B1'' ''alice'' \<and>
   map sp_enrolled_courses
     (student_profiles (fst (remove_student_from_batch school_db ''B1'' ''alice'')))
     = [[''N5''], []] \<and>
   fee_structures (fst (remove_student_from_batch school_db ''B1'' ''alice''))
     = fee_structures school_db"
  using remove_student_idempotent [of school_db "''B1''" "''alice''"]
  by (simp add: remove_student_from_batch_eq school_db_def find_batch_def find_profile_def
      find_one_def pull_student_def pull_def get_enrolled_students_def)

subsection \<open>Enrollment with fees: what a success means\<close>

lemmas store_eval =
  find_batch_def find_profile_def find_fee_def find_one_def upsert_one_def insert_one_def
  add_to_set_def pull_def get_enrolled_students_def get_max_students_def add_student_def
  pull_student_def batch_full_def Let_def

lemma add_student_id: "b_id (add_student s b) = b_id b"
  by (simp add: add_student_def)

lemma get_enrolled_add_student:
  "get_enrolled_students (add_student s b) = add_to_set (get_enrolled_students b) s"
  by (simp add: add_student_def get_enrolled_students_def)

lemma get_max_add_student: "get_max_students (add_student s b) = get_max_students b"
  by (simp add: add_student_def get_max_students_def)

lemma find_batch_add_student:
  "find_one (\<lambda>b. b_id b = bid) (update_one (\<lambda>b. b_id b = bid) (add_student s) xs)
     = map_option (add_student s) (find_one (\<lambda>b. b_id b = bid) xs)"
  by (rule find_one_update_one) (simp add: add_student_id)

text \<open>What a successful enrollment with fees has checked and written.\<close>

lemma enroll_student_with_fees_success:
  assumes "enroll_student_with_fees uuid now d bid sid tf disc n = (d1, Inr r)"
  shows "\<exists>batch. find_batch d bid = Some batch \<and> \<not> batch_full batch \<and>
           sid \<notin> set (get_enrolled_students batch) \<and>
           batches d1 = update_one (\<lambda>b. b_id b = bid) (add_student sid) (batches d) \<and>
           student_profiles d1 =
             upsert_one (\<lambda>p. sp_user_id p = sid)
               (\<lambda>p. p\<lparr>sp_batch_id := Some bid, sp_status := ''active'',
                       sp_enrolled_courses :=
                         add_to_set (sp_enrolled_courses p) (b_course_id batch)\<rparr>)
               \<lparr>sp_user_id = sid, sp_batch_id = Some bid,
                sp_enrolled_courses = [b_course_id batch], sp_status = ''active''\<rparr>
               (student_profiles d) \<and>
           (if 0 < tf then n \<noteq> 0 \<and>
              fee_structures d1 = fee_structures d @
                [new_fee_structure uuid now sid (b_course_id batch) bid tf (fsub tf disc)
                   (make_installments now (fdiv_int (fsub tf disc) n) n) disc]
            else fee_structures d1 = fee_structures d)"
  using assms
  by (auto simp: enroll_student_with_fees_def Let_def insert_one_def
      split: option.splits if_splits)

lemma enroll_student_with_fees_find_batch:
  assumes "enroll_student_with_fees uuid now d bid sid tf disc n = (d1, Inr r)"
  shows "\<exists>batch. find_batch d bid = Some batch \<and> \<not> batch_full batch \<and>
           sid \<notin> set (get_enrolled_students batch) \<and>
           find_batch d1 bid = Some (add_student sid batch)"
proof -
  from enroll_student_with_fees_success [OF assms] obtain batch where
    b: "find_batch d bid = Some batch" "\<not> batch_full batch"
       "sid \<notin> set (get_enrolled_students batch)"
    and w: "batches d1 = update_one (\<lambda>b. b_id b = bid) (add_student sid) (batches d)"
    by blast
  have "find_batch d1 bid = Some (add_student sid batch)"
    using b(1) by (simp add: find_batch_def w find_batch_add_student)
  with b show ?thesis by blast
qed

subsection \<open>Enrolling twice\<close>

text \<open>
  Claim C4, as the code has it. After a successful enrollment through
  \<^verbatim>\<open>enroll_student_with_fees\<close> the roster is the old one with the student appended,
  and a second such request for the same batch and student fails and leaves the store as
  it is, so that the roster has grown by exactly one across the two calls. The failure is
  \<open>CapacityExceeded\<close> when the first enrollment filled the batch and
  \<open>AlreadyEnrolled\<close> otherwise.
\<close>

theorem second_enroll_with_fees_fails:
  assumes "enroll_student_with_fees uuid now d bid sid tf disc n = (d1, Inr r)"
  shows "roster d1 bid = roster d bid @ [sid] \<and>
         (\<exists>batch1. find_batch d1 bid = Some batch1 \<and>
            enroll_student_with_fees uuid2 now2 d1 bid sid tf2 disc2 n2
              = (d1, Inl (if batch_full batch1 then CapacityExceeded else AlreadyEnrolled)))"
proof -
  from enroll_student_with_fees_find_batch [OF assms] obtain batch where
    b: "find_batch d bid = Some batch" "sid \<notin> set (get_enrolled_students batch)"
    and b1: "find_batch d1 bid = Some (add_student sid batch)"
    by blast
  have r: "roster d1 bid = roster d bid @ [sid]"
    using b b1 by (simp add: roster_def get_enrolled_add_student add_to_set_def)
  have "sid \<in> set (get_enrolled_students (add_student sid batch))"
    by (simp add: get_enrolled_add_student add_to_set_def)
  then have "enroll_student_with_fees uuid2 now2 d1 bid sid tf2 disc2 n2
      = (d1, Inl (if batch_full (add_student sid batch) then CapacityExceeded
                  else AlreadyEnrolled))"
    using b1 by (simp add: enroll_student_with_fees_def)
  with r b1 show ?thesis by simp
qed

theorem second_enroll_with_fees_fails_witness:
  "roster school_db ''B2'' = [] \<and>
   roster (fst (enroll_student_with_fees ''f-1'' 0 school_db ''B2'' ''carol'' 0 0 2)) ''B2''
     = [''carol''] \<and>
   enroll_student_with_fees ''f-2'' 60
       (fst (enroll_student_with_fees ''f-1'' 0 school_db ''B2'' ''carol'' 0 0 2))
       ''B2'' ''carol'' 0 0 2
     = (fst (enroll_student_with_fees ''f-1'' 0 school_db ''B2'' ''carol'' 0 0 2),
        Inl AlreadyEnrolled)"
proof -
  have h: "enroll_student_with_fees ''f-1'' 0 school_db ''B2'' ''carol'' 0 0 2
      = (fst (enroll_student_with_fees ''f-1'' 0 school_db ''B2'' ''carol'' 0 0 2),
         Inr (MessageBatch ''Student enrolled successfully'' ''B2''))"
    by (simp add: enroll_student_with_fees_def school_db_def store_eval)
  have b: "map_option batch_full
      (find_batch (fst (enroll_student_with_fees ''f-1'' 0 school_db ''B2'' ''carol'' 0 0 2))
         ''B2'') = Some False"
    by (simp add: enroll_student_with_fees_def school_db_def store_eval)
  have r: "roster school_db ''B2'' = []"
    by (simp add: roster_def school_db_def store_eval)
  show ?thesis
    using second_enroll_with_fees_fails [OF h, of "''f-2''" 60 0 0 2] b r
    by auto
qed

text \<open>
  The claim as stated fails for a batch with one free place: the first enrollment fills it,
  and the second request is answered \<open>CapacityExceeded\<close>, not \<open>AlreadyEnrolled\<close>.
\<close>

theorem second_enroll_in_filled_batch_is_capacity_exceeded:
  "\<not> batch_full (hd (batches school_db)) \<and>
   snd (enroll_student_with_fees ''f-1'' 0 school_db ''B1'' ''carol'' 0 0 2)
     = Inr (MessageBatch ''Student enrolled successfully'' ''B1'') \<and>
   snd (enroll_student_with_fees ''f-2'' 60
          (fst (enroll_student_with_fees ''f-1'' 0 school_db ''B1'' ''carol'' 0 0 2))
          ''B1'' ''carol'' 0 0 2)
     = Inl CapacityExceeded \<and>
   CapacityExceeded \<noteq> AlreadyEnrolled"
  by (simp add: enroll_student_with_fees_def school_db_def store_eval
      CapacityExceeded_def AlreadyEnrolled_def)

subsection \<open>What the enrollment handlers keep and write\<close>

lemma find_one_append:
  "find_one P (xs @ [y]) =
     (case find_one P xs of None \<Rightarrow> (if P y then Some y else None) | Some x \<Rightarrow> Some x)"
  by (induction xs) (auto simp: find_one_def)

lemma add_student_invariant:
  assumes "batch_invariant b" and "\<not> batch_full b"
  shows "batch_invariant (add_student s b)"
  using assms
  by (auto simp: batch_invariant_def batch_full_def get_enrolled_add_student
      get_max_add_student add_to_set_def)

lemma add_student_distinct:
  assumes "distinct (get_enrolled_students b)"
  shows "distinct (get_enrolled_students (add_student s b))"
  using assms by (simp add: get_enrolled_add_student add_to_set_def)

lemma add_student_member: "s \<in> set (get_enrolled_students (add_student s b))"
  by (simp add: get_enrolled_add_student add_to_set_def)

text \<open>
  Each of the three single-enrollment handlers keeps the invariant of the batch it is
  asked for: it adds a student only to a roster that is not full.
\<close>

lemma enroll_student_keeps_invariant:
  assumes "find_batch d bid = Some b" and "batch_invariant b"
  shows "\<exists>b'. find_batch (fst (enroll_student d bid s)) bid = Some b' \<and> batch_invariant b'"
  using assms
  by (auto simp: enroll_student_def Let_def find_batch_def find_batch_add_student
      add_student_invariant)

lemma enroll_student_in_batch_keeps_invariant:
  assumes "find_batch d bid = Some b" and "batch_invariant b"
  shows "\<exists>b'. find_batch (fst (enroll_student_in_batch d bid s)) bid = Some b' \<and>
           batch_invariant b'"
  using assms
  by (auto simp: enroll_student_in_batch_def Let_def find_batch_def find_batch_add_student
      add_student_invariant)

lemma enroll_student_with_fees_keeps_invariant:
  assumes "find_batch d bid = Some b" and "batch_invariant b"
  shows "\<exists>b'. find_batch (fst (enroll_student_with_fees uuid now d bid s tf disc n)) bid
             = Some b' \<and> batch_invariant b'"
  using assms
  by (auto simp: enroll_student_with_fees_def Let_def find_batch_def find_batch_add_student
      add_student_invariant)

text \<open>
  A successful enrollment with fees leaves the student on the roster and a profile with
  this batch and the course of the batch.
\<close>

lemma find_profile_upsert:
  "\<exists>p. find_one (\<lambda>p. sp_user_id p = sid)
          (upsert_one (\<lambda>p. sp_user_id p = sid)
             (\<lambda>p. p\<lparr>sp_batch_id := Some bid, sp_status := ''active'',
                     sp_enrolled_courses := add_to_set (sp_enrolled_courses p) course\<rparr>)
             \<lparr>sp_user_id = sid, sp_batch_id = Some bid, sp_enrolled_courses = [course],
              sp_status = ''active''\<rparr> xs) = Some p \<and>
       sp_batch_id p = Some bid \<and> course \<in> set (sp_enrolled_courses p)"
proof (cases "find_one (\<lambda>p. sp_user_id p = sid) xs")
  case None
  then show ?thesis by (simp add: upsert_one_def find_one_append)
next
  case (Some q)
  have "find_one (\<lambda>p. sp_user_id p = sid)
          (update_one (\<lambda>p. sp_user_id p = sid)
             (\<lambda>p. p\<lparr>sp_batch_id := Some bid, sp_status := ''active'',
                     sp_enrolled_courses := add_to_set (sp_enrolled_courses p) course\<rparr>) xs)
        = map_option (\<lambda>p. p\<lparr>sp_batch_id := Some bid, sp_status := ''active'',
                     sp_enrolled_courses := add_to_set (sp_enrolled_courses p) course\<rparr>)
            (find_one (\<lambda>p. sp_user_id p = sid) xs)"
    by (rule find_one_update_one) simp
  with Some show ?thesis by (simp add: upsert_one_def add_to_set_def)
qed

lemma enroll_student_with_fees_effects:
  assumes "enroll_student_with_fees uuid now d bid sid tf disc n = (d1, Inr r)"
  shows "\<exists>batch p. find_batch d bid = Some batch \<and> sid \<in> set (roster d1 bid) \<and>
           find_profile d1 sid = Some p \<and> sp_batch_id p = Some bid \<and>
           b_course_id batch \<in> set (sp_enrolled_courses p)"
proof -
  from enroll_student_with_fees_success [OF assms] obtain batch where
    b: "find_batch d bid = Some batch"
    and w: "batches d1 = update_one (\<lambda>b. b_id b = bid) (add_student sid) (batches d)"
    and p: "student_profiles d1 =
             upsert_one (\<lambda>p. sp_user_id p = sid)
               (\<lambda>p. p\<lparr>sp_batch_id := Some bid, sp_status := ''active'',
                       sp_enrolled_courses :=
                         add_to_set (sp_enrolled_courses p) (b_course_id batch)\<rparr>)
               \<lparr>sp_user_id = sid, sp_batch_id = Some bid,
                sp_enrolled_courses = [b_course_id batch], sp_status = ''active''\<rparr>
               (student_profiles d)"
    by blast
  have "sid \<in> set (roster d1 bid)"
    using b by (simp add: roster_def find_batch_def w find_batch_add_student add_student_member)
  moreover from find_profile_upsert [where sid = sid and bid = bid and course = "b_course_id batch"
      and xs = "student_profiles d"]
  obtain q where "find_profile d1 sid = Some q" "sp_batch_id q = Some bid"
    "b_course_id batch \<in> set (sp_enrolled_courses q)"
    unfolding find_profile_def p by blast
  ultimately show ?thesis using b by blast
qed

text \<open>Bulk enrollment keeps a roster free of duplicates.\<close>

lemma bulk_row_batches:
  "\<exists>sid. batches (fst (bulk_row uuids now batch bid idx sd (d, c, e))) = batches d \<or>
         batches (fst (bulk_row uuids now batch bid idx sd (d, c, e)))
           = update_one (\<lambda>b. b_id b = bid) (add_student sid) (batches d)"
  by (auto simp: bulk_row_def Let_def split: option.splits)

lemma roster_distinct_update:
  assumes "roster_distinct d bid"
    and "batches d' = update_one (\<lambda>b. b_id b = bid) (add_student sid) (batches d)"
  shows "roster_distinct d' bid"
  using assms
  by (cases "find_one (\<lambda>b. b_id b = bid) (batches d)")
     (simp_all add: roster_distinct_def roster_def find_batch_def find_batch_add_student
       add_student_distinct)

lemma bulk_row_distinct:
  assumes "roster_distinct d bid"
  shows "roster_distinct (fst (bulk_row uuids now batch bid idx sd (d, c, e))) bid"
proof -
  from bulk_row_batches [of uuids now batch bid idx sd d c e] obtain sid where
    "batches (fst (bulk_row uuids now batch bid idx sd (d, c, e))) = batches d \<or>
     batches (fst (bulk_row uuids now batch bid idx sd (d, c, e)))
       = update_one (\<lambda>b. b_id b = bid) (add_student sid) (batches d)"
    by blast
  then show ?thesis
  proof
    assume "batches (fst (bulk_row uuids now batch bid idx sd (d, c, e))) = batches d"
    with assms show ?thesis
      by (simp add: roster_distinct_def roster_def find_batch_def)
  next
    assume "batches (fst (bulk_row uuids now batch bid idx sd (d, c, e)))
       = update_one (\<lambda>b. b_id b = bid) (add_student sid) (batches d)"
    with assms show ?thesis by (rule roster_distinct_update)
  qed
qed

lemma bulk_loop_distinct:
  assumes "roster_distinct (fst st) bid"
  shows "roster_distinct (fst (bulk_loop uuids now batch bid idx rows st)) bid"
  using assms
proof (induction rows arbitrary: idx st)
  case Nil
  then show ?case by simp
next
  case (Cons sd rows)
  obtain d c e where st: "st = (d, c, e)"
    by (cases st) auto
  with Cons.prems have "roster_distinct (fst (bulk_row uuids now batch bid idx sd st)) bid"
    by (simp add: bulk_row_distinct)
  then show ?case
    using Cons.IH by simp
qed

lemma bulk_enroll_students_distinct:
  assumes "roster_distinct d bid"
  shows "roster_distinct (fst (bulk_enroll_students uuids now d bid rows)) bid"
proof (cases "find_batch d bid")
  case None
  with assms show ?thesis by (simp add: bulk_enroll_students_def)
next
  case (Some batch)
  have "roster_distinct (fst (bulk_loop uuids now batch bid 0 rows (d, 0, []))) bid"
    using assms by (intro bulk_loop_distinct) simp
  with Some show ?thesis
    by (auto simp: bulk_enroll_students_def split: prod.splits)
qed

text \<open>
  The two handlers without an upsert leave the profiles as they are for a student without
  a profile, and they enroll a student again without an error, the roster staying as it
  is.
\<close>

lemma update_one_no_match:
  assumes "find_one P xs = None"
  shows "update_one P f xs = xs"
  using assms by (induction xs) (auto simp: find_one_def split: if_splits)

lemma enroll_student_without_profile:
  assumes "find_profile d sid = None"
  shows "student_profiles (fst (enroll_student d bid sid)) = student_profiles d"
    and "student_profiles (fst (enroll_student_in_batch d bid sid)) = student_profiles d"
  using assms
  by (auto simp: enroll_student_def enroll_student_in_batch_def Let_def find_profile_def
      update_one_no_match split: option.splits)

lemma enroll_student_again:
  assumes "find_batch d bid = Some b" and "\<not> batch_full b"
    and "sid \<in> set (get_enrolled_students b)"
  shows "snd (enroll_student d bid sid) = Inr (Message ''Student enrolled successfully'')"
    and "roster (fst (enroll_student d bid sid)) bid = roster d bid"
    and "snd (enroll_student_in_batch d bid sid)
           = Inr (Message ''Student enrolled successfully'')"
    and "roster (fst (enroll_student_in_batch d bid sid)) bid = roster d bid"
  using assms
  by (auto simp: enroll_student_def enroll_student_in_batch_def Let_def roster_def
      find_batch_def find_batch_add_student get_enrolled_add_student add_to_set_def)

subsection \<open>Bulk enrollment and the batch invariant\<close>

text \<open>
  Claim C3 at a failing input. A batch of two places with one student enrolled takes three
  more students in one bulk request: all three rows are counted as enrolled and the roster
  has four students, with \<open>max_students\<close> still two.
\<close>

theorem bulk_enroll_exceeds_capacity:
  "map_option get_max_students (find_batch school_db ''B1'') = Some 2 \<and>
   roster school_db ''B1'' = [''alice''] \<and>
   snd (bulk_enroll_students bulk_uuids 0 school_db ''B1'' [carol_row, dave_row, erin_row])
     = Inr (BulkResult 3 []) \<and>
   roster (fst (bulk_enroll_students bulk_uuids 0 school_db ''B1''
                  [carol_row, dave_row, erin_row])) ''B1''
     = [''alice'', ''carol'', ''u-1'', ''u-2''] \<and>
   map_option get_max_students
     (find_batch (fst (bulk_enroll_students bulk_uuids 0 school_db ''B1''
                         [carol_row, dave_row, erin_row])) ''B1'') = Some 2"
  by (simp add: bulk_enroll_students_def bulk_row_def roster_def school_db_def store_eval
      carol_row_def dave_row_def erin_row_def bulk_uuids_def row_total_fee_def
      row_discount_def row_phone_def)

subsection \<open>Bulk enrollment and the student profile\<close>

text \<open>
  Claim C8 at a failing input. Bulk enrollment of a student who has a user and a profile
  counts the row as enrolled and puts the student on the roster, and the profile still has
  no batch and no enrolled course.
\<close>

theorem bulk_enroll_leaves_profile:
  "snd (bulk_enroll_students bulk_uuids 0 school_db ''B2'' [carol_row]) = Inr (BulkResult 1 []) \<and>
   roster (fst (bulk_enroll_students bulk_uuids 0 school_db ''B2'' [carol_row])) ''B2''
     = [''carol''] \<and>
   map_option (\<lambda>p. (sp_batch_id p, sp_enrolled_courses p))
     (find_profile (fst (bulk_enroll_students bulk_uuids 0 school_db ''B2'' [carol_row]))
        ''carol'') = Some (None, [])"
  by (simp add: bulk_enroll_students_def bulk_row_def roster_def school_db_def store_eval
      carol_row_def bulk_uuids_def row_total_fee_def row_discount_def row_phone_def)

subsection \<open>Installments\<close>

lemma make_installments_amounts:
  "map inst_amount (make_installments now per n) = replicate (nat n) per"
  by (simp add: make_installments_def comp_def map_replicate_const)

lemma float_examples_division:
  "fsub 1000 0 = 1000" "fdiv_int 1000 6 = 5864062014805333 / 35184372088832"
  "fdiv_int 9000 3 = 3000" "fsub 17999 0 = 17999" "fdiv_int 17999 2 = 17999 / 2"
  by (simp_all add: fl_eval)

lemma six_shares_partial_sums:
  "fadd 0 (5864062014805333 / 35184372088832) = 5864062014805333 / 35184372088832"
  "fadd (5864062014805333 / 35184372088832) (5864062014805333 / 35184372088832)
     = 5864062014805333 / 17592186044416"
  "fadd (5864062014805333 / 17592186044416) (5864062014805333 / 35184372088832) = 500"
  "fadd 500 (5864062014805333 / 35184372088832) = 5864062014805333 / 8796093022208"
  "fadd (5864062014805333 / 8796093022208) (5864062014805333 / 35184372088832)
     = 3665038759253333 / 4398046511104"
  "fadd (3665038759253333 / 4398046511104) (5864062014805333 / 35184372088832)
     = 8796093022207999 / 8796093022208"
  by (simp_all add: fl_eval)

lemma replicate_six: "replicate 6 x = [x, x, x, x, x, x]"
  by (simp add: eval_nat_numeral)

lemma six_shares_float_sum:
  "foldl fadd 0 (replicate 6 (5864062014805333 / 35184372088832))
     = 8796093022207999 / 8796093022208"
  unfolding replicate_six by (simp add: six_shares_partial_sums)

lemma enroll_student_with_fees_fee:
  assumes "enroll_student_with_fees uuid now d bid sid tf disc n = (d1, Inr r)" and "0 < tf"
  shows "fee_structures d1 = fee_structures d @
       [new_fee_structure uuid now sid (b_course_id (the (find_batch d bid))) bid tf
          (fsub tf disc) (make_installments now (fdiv_int (fsub tf disc) n) n) disc]"
  using assms
  by (auto simp: enroll_student_with_fees_def Let_def insert_one_def
      split: option.splits if_splits)

text \<open>
  Claim C2, as the code has it. A fee structure created by
  \<^verbatim>\<open>enroll_student_with_fees\<close> for a positive fee has \<open>installments\<close> installments,
  each with the same amount, the float quotient of \<open>total_fee - discount\<close> by the number
  of installments; the one created for a row of a bulk request has two, each with half of
  \<open>total_fee - discount\<close>. The pending amount is \<open>total_fee - discount\<close> and nothing is
  paid. No installment differs from the others, the last one included.
\<close>

theorem installments_equal_shares:
  "(enroll_student_with_fees uuid now d bid sid tf disc n = (d1, Inr r) \<and> 0 < tf \<longrightarrow>
      (\<exists>fee. fee_structures d1 = fee_structures d @ [fee] \<and>
         fs_total_fee fee = tf \<and> fs_discount_applied fee = disc \<and>
         fs_paid_amount fee = 0 \<and> fs_pending_amount fee = fsub tf disc \<and>
         map inst_amount (fs_installments fee)
           = replicate (nat n) (fdiv_int (fsub tf disc) n))) \<and>
   (bulk_row uuids now batch bid idx sd (d, c, e) = (d2, Suc c, e2) \<and> 0 < row_total_fee sd \<longrightarrow>
      (\<exists>fee. fee_structures d2 = fee_structures d @ [fee] \<and>
         fs_total_fee fee = row_total_fee sd \<and> fs_discount_applied fee = row_discount sd \<and>
         fs_paid_amount fee = 0 \<and>
         fs_pending_amount fee = fsub (row_total_fee sd) (row_discount sd) \<and>
         map inst_amount (fs_installments fee)
           = replicate 2 (fdiv_int (fsub (row_total_fee sd) (row_discount sd)) 2)))"
proof (intro conjI impI)
  assume a: "enroll_student_with_fees uuid now d bid sid tf disc n = (d1, Inr r) \<and> 0 < tf"
  then have a1: "enroll_student_with_fees uuid now d bid sid tf disc n = (d1, Inr r)"
    and a2: "0 < tf"
    by simp_all
  from enroll_student_with_fees_fee [OF a1 a2] show "\<exists>fee. fee_structures d1 = fee_structures d @ [fee] \<and>
         fs_total_fee fee = tf \<and> fs_discount_applied fee = disc \<and>
         fs_paid_amount fee = 0 \<and> fs_pending_amount fee = fsub tf disc \<and>
         map inst_amount (fs_installments fee)
           = replicate (nat n) (fdiv_int (fsub tf disc) n)"
    by (simp add: new_fee_structure_def make_installments_amounts)
next
  assume a: "bulk_row uuids now batch bid idx sd (d, c, e) = (d2, Suc c, e2) \<and>
             0 < row_total_fee sd"
  then show "\<exists>fee. fee_structures d2 = fee_structures d @ [fee] \<and>
         fs_total_fee fee = row_total_fee sd \<and> fs_discount_applied fee = row_discount sd \<and>
         fs_paid_amount fee = 0 \<and>
         fs_pending_amount fee = fsub (row_total_fee sd) (row_discount sd) \<and>
         map inst_amount (fs_installments fee)
           = replicate 2 (fdiv_int (fsub (row_total_fee sd) (row_discount sd)) 2)"
    by (auto simp: bulk_row_def Let_def insert_one_def new_fee_structure_def
        make_installments_amounts split: option.splits if_splits)
qed

theorem installments_equal_shares_witness:
  "snd (enroll_student_with_fees ''f-1'' 0 school_db ''B2'' ''carol'' 10000 1000 3)
     = Inr (MessageBatch ''Student enrolled successfully'' ''B2'') \<and>
   map (\<lambda>f. (fs_pending_amount f, map inst_amount (fs_installments f)))
     (drop 2 (fee_structures
        (fst (enroll_student_with_fees ''f-1'' 0 school_db ''B2'' ''carol'' 10000 1000 3))))
     = [(9000, [3000, 3000, 3000])] \<and>
   fst (snd (bulk_row bulk_uuids 0 (hd (tl (batches school_db))) ''B2'' 1 dave_row
               (school_db, 0, []))) = 1 \<and>
   map (\<lambda>f. (fs_pending_amount f, map inst_amount (fs_installments f)))
     (drop 2 (fee_structures
        (fst (bulk_row bulk_uuids 0 (hd (tl (batches school_db))) ''B2'' 1 dave_row
                (school_db, 0, [])))))
     = [(17999, [17999 / 2, 17999 / 2])]"
proof -
  let ?E = "enroll_student_with_fees ''f-1'' 0 school_db ''B2'' ''carol'' 10000 1000 3"
  let ?B = "bulk_row bulk_uuids 0 (hd (tl (batches school_db))) ''B2'' 1 dave_row
              (school_db, 0, [])"
  have s: "snd ?E = Inr (MessageBatch ''Student enrolled successfully'' ''B2'')"
    by (simp add: enroll_student_with_fees_def school_db_def store_eval)
  have h: "?E = (fst ?E, Inr (MessageBatch ''Student enrolled successfully'' ''B2'')) \<and>
           (0::real) < 10000"
    using s by (simp add: prod_eq_iff)
  have t: "snd ?B = (Suc 0, [])"
    by (simp add: bulk_row_def school_db_def store_eval dave_row_def bulk_uuids_def
        row_total_fee_def row_discount_def row_phone_def)
  have p: "row_total_fee dave_row = 17999" "row_discount dave_row = 0"
    by (simp_all add: row_total_fee_def row_discount_def dave_row_def)
  have g: "?B = (fst ?B, Suc 0, []) \<and> 0 < row_total_fee dave_row"
    using t p by (simp add: prod_eq_iff)
  have l: "length (fee_structures school_db) = 2"
    by (simp add: school_db_def ledger_db_def)
  from installments_equal_shares [THEN conjunct1, rule_format, OF h] obtain fee where
    f: "fee_structures (fst ?E) = fee_structures school_db @ [fee]"
       "fs_pending_amount fee = fsub 10000 1000"
       "map inst_amount (fs_installments fee) = replicate (nat 3) (fdiv_int (fsub 10000 1000) 3)"
    by blast
  from installments_equal_shares [THEN conjunct2, rule_format, OF g] obtain fee2 where
    f2: "fee_structures (fst ?B) = fee_structures school_db @ [fee2]"
       "fs_pending_amount fee2 = fsub (row_total_fee dave_row) (row_discount dave_row)"
       "map inst_amount (fs_installments fee2)
          = replicate 2 (fdiv_int (fsub (row_total_fee dave_row) (row_discount dave_row)) 2)"
    by blast
  show ?thesis
    using f f2 p s t l
    by (simp add: float_examples float_examples_division eval_nat_numeral)
qed

text \<open>
  The claim as stated fails for a fee of 1000 in six installments: every installment is the
  float nearest to \<open>1000 / 6\<close>, and the six of them sum to less than 1000, both as real
  numbers and as Python adds them (999.9999999999999).
\<close>

theorem six_installments_lose_remainder:
  "snd (enroll_student_with_fees ''f-1'' 0 school_db ''B2'' ''carol'' 1000 0 6)
     = Inr (MessageBatch ''Student enrolled successfully'' ''B2'') \<and>
   map fs_total_fee
     (drop 2 (fee_structures
        (fst (enroll_student_with_fees ''f-1'' 0 school_db ''B2'' ''carol'' 1000 0 6))))
     = [1000] \<and>
   map fs_discount_applied
     (drop 2 (fee_structures
        (fst (enroll_student_with_fees ''f-1'' 0 school_db ''B2'' ''carol'' 1000 0 6))))
     = [0] \<and>
   map (map inst_amount \<circ> fs_installments)
     (drop 2 (fee_structures
        (fst (enroll_student_with_fees ''f-1'' 0 school_db ''B2'' ''carol'' 1000 0 6))))
     = [replicate 6 (5864062014805333 / 35184372088832)] \<and>
   map installment_sum
     (drop 2 (fee_structures
        (fst (enroll_student_with_fees ''f-1'' 0 school_db ''B2'' ''carol'' 1000 0 6))))
     = [35184372088831998 / 35184372088832] \<and>
   map installment_float_sum
     (drop 2 (fee_structures
        (fst (enroll_student_with_fees ''f-1'' 0 school_db ''B2'' ''carol'' 1000 0 6))))
     = [8796093022207999 / 8796093022208] \<and>
   map installments_exact
     (drop 2 (fee_structures
        (fst (enroll_student_with_fees ''f-1'' 0 school_db ''B2'' ''carol'' 1000 0 6))))
     = [False] \<and>
   map installments_float_exact
     (drop 2 (fee_structures
        (fst (enroll_student_with_fees ''f-1'' 0 school_db ''B2'' ''carol'' 1000 0 6))))
     = [False]"
proof -
  have s: "snd (enroll_student_with_fees ''f-1'' 0 school_db ''B2'' ''carol'' 1000 0 6)
      = Inr (MessageBatch ''Student enrolled successfully'' ''B2'')"
    by (simp add: enroll_student_with_fees_def school_db_def store_eval)
  have f: "drop 2 (fee_structures
        (fst (enroll_student_with_fees ''f-1'' 0 school_db ''B2'' ''carol'' 1000 0 6)))
      = [new_fee_structure ''f-1'' 0 ''carol'' ''N4'' ''B2'' 1000 1000
           (make_installments 0 (5864062014805333 / 35184372088832) 6) 0]"
    by (simp add: enroll_student_with_fees_def school_db_def store_eval ledger_db_def
        float_examples_division)
  have a: "map inst_amount (make_installments 0 (5864062014805333 / 35184372088832) 6)
      = replicate 6 (5864062014805333 / 35184372088832)"
    by (simp add: make_installments_amounts)
  have e: "sum_list (replicate 6 (5864062014805333 / 35184372088832 :: real))
      = 35184372088831998 / 35184372088832"
    unfolding replicate_six by simp
  show ?thesis
    unfolding f s
    by (simp add: new_fee_structure_def installment_sum_def installment_float_sum_def
        installments_exact_def installments_float_exact_def
        a e six_shares_float_sum float_examples_division)
qed

end
